theory Spec2Isabelle
  imports Complex_Main
begin

section \<open>JavaScript values\<close>

text \<open>
  A value of TypeScript type \<open>string | null\<close> is a \<open>string option\<close>, \<open>None\<close> being
  \<open>null\<close>. A \<open>char\<close> stands for one code unit of the JavaScript string; only code units
  below 256 are represented.
\<close>

text \<open>The test \<open>if (v)\<close> on a \<open>string | null\<close>: \<open>null\<close> and the empty string are falsy.\<close>

fun truthy :: "string option \<Rightarrow> bool" where
  "truthy None = False"
| "truthy (Some s) = (s \<noteq> [])"

text \<open>The interpolation \<open>${v}\<close> of a template literal: \<open>null\<close> is printed as \<open>null\<close>.\<close>

fun interpolate :: "string option \<Rightarrow> string" where
  "interpolate None = ''null''"
| "interpolate (Some s) = s"

text \<open>
  \<open>String.prototype.trim\<close> removes the white space and line terminators at both ends;
  below 256 these are TAB, LF, VT, FF, CR, SPACE and NBSP.
\<close>

definition isWhiteSpace :: "char \<Rightarrow> bool" where
  "isWhiteSpace c =
     (c \<in> set [CHR 0x09, CHR 0x0A, CHR 0x0B, CHR 0x0C, CHR 0x0D, CHR 0x20, CHR 0xA0])"

definition trim :: "string \<Rightarrow> string" where
  "trim s = rev (dropWhile isWhiteSpace (rev (dropWhile isWhiteSpace s)))"

text \<open>
  \<open>String.prototype.toLowerCase\<close>: below 256 the code units with a different lower case
  are \<open>A\<close> to \<open>Z\<close> and the accented capitals \<open>0xC0\<close> to \<open>0xDE\<close> (without the
  multiplication sign \<open>0xD7\<close>), each 32 below its lower case.
\<close>

definition upper_case_units :: string where
  "upper_case_units = ''ABCDEFGHIJKLMNOPQRSTUVWXYZ'' @
     [
      CHR 0xC0, CHR 0xC1, CHR 0xC2, CHR 0xC3, CHR 0xC4, CHR 0xC5, CHR 0xC6, CHR 0xC7,
      CHR 0xC8, CHR 0xC9, CHR 0xCA, CHR 0xCB, CHR 0xCC, CHR 0xCD, CHR 0xCE, CHR 0xCF,
      CHR 0xD0, CHR 0xD1, CHR 0xD2, CHR 0xD3, CHR 0xD4, CHR 0xD5, CHR 0xD6, CHR 0xD8,
      CHR 0xD9, CHR 0xDA, CHR 0xDB, CHR 0xDC, CHR 0xDD, CHR 0xDE]"

definition lower_case_units :: string where
  "lower_case_units = ''abcdefghijklmnopqrstuvwxyz'' @
     [
      CHR 0xE0, CHR 0xE1, CHR 0xE2, CHR 0xE3, CHR 0xE4, CHR 0xE5, CHR 0xE6, CHR 0xE7,
      CHR 0xE8, CHR 0xE9, CHR 0xEA, CHR 0xEB, CHR 0xEC, CHR 0xED, CHR 0xEE, CHR 0xEF,
      CHR 0xF0, CHR 0xF1, CHR 0xF2, CHR 0xF3, CHR 0xF4, CHR 0xF5, CHR 0xF6, CHR 0xF8,
      CHR 0xF9, CHR 0xFA, CHR 0xFB, CHR 0xFC, CHR 0xFD, CHR 0xFE]"

definition toLowerCase_char :: "char \<Rightarrow> char" where
  "toLowerCase_char c =
     (case map_of (zip upper_case_units lower_case_units) c of
        Some l \<Rightarrow> l
      | None \<Rightarrow> c)"

definition toLowerCase :: "string \<Rightarrow> string" where
  "toLowerCase s = map toLowerCase_char s"

text \<open>
  \<open>s.split(sep)\<close> for a separator of one code unit: the pieces between the separators,
  never an empty array.
\<close>

fun js_split :: "char \<Rightarrow> string \<Rightarrow> string list" where
  "js_split sep [] = [[]]"
| "js_split sep (c # cs) =
     (if c = sep then [] # js_split sep cs
      else (case js_split sep cs of
              [] \<Rightarrow> [[c]]
            | w # ws \<Rightarrow> (c # w) # ws))"

section \<open>AsyncStorage\<close>

text \<open>
  The persistent key-value store of the device. Each call is a promise; whether it resolves
  or rejects is decided by the storage medium, so it is an argument of the operation. A
  rejected write leaves the stored pairs as they were.
\<close>

datatype error = StorageError

datatype outcome = Resolves | Rejects

type_synonym storage = "string \<rightharpoonup> string"

definition getItem :: "outcome \<Rightarrow> storage \<Rightarrow> string \<Rightarrow> error + string option" where
  "getItem io st k = (case io of Rejects \<Rightarrow> Inl StorageError | Resolves \<Rightarrow> Inr (st k))"

definition setItem :: "outcome \<Rightarrow> storage \<Rightarrow> string \<Rightarrow> string \<Rightarrow> (error + unit) \<times> storage" where
  "setItem io st k v =
     (case io of Rejects \<Rightarrow> (Inl StorageError, st) | Resolves \<Rightarrow> (Inr (), st(k \<mapsto> v)))"

definition removeItem :: "outcome \<Rightarrow> storage \<Rightarrow> string \<Rightarrow> (error + unit) \<times> storage" where
  "removeItem io st k =
     (case io of Rejects \<Rightarrow> (Inl StorageError, st) | Resolves \<Rightarrow> (Inr (), st(k := None)))"

section \<open>AuthContext\<close>

definition TOKEN_KEY :: string where
  "TOKEN_KEY = ''userToken''"

text \<open>The two state cells of \<open>AuthProvider\<close>, as \<open>AuthContextData\<close> hands them to consumers.\<close>

record AuthContextData =
  userToken :: "string option"
  isLoading :: bool

text \<open>The device: what AsyncStorage holds, and the provider's state.\<close>

record world =
  disk :: storage
  ctx :: AuthContextData

text \<open>Mounting the provider: \<open>useState(null)\<close> and \<open>useState(true)\<close>.\<close>

definition mount :: "storage \<Rightarrow> world" where
  "mount st = \<lparr>disk = st, ctx = \<lparr>userToken = None, isLoading = True\<rparr>\<rparr>"

text \<open>
  The effect run once after mounting:
  \<open>getItem(TOKEN_KEY).then(token => setUserToken(token)).finally(() => setIsLoading(false))\<close>.
  The two callbacks are two state updates, made one after the other. A rejected read skips
  the \<open>then\<close> callback; the \<open>finally\<close> callback always runs.
\<close>

definition useEffect_then :: "outcome \<Rightarrow> world \<Rightarrow> world" where
  "useEffect_then io w =
     (case getItem io (disk w) TOKEN_KEY of
        Inl e \<Rightarrow> w
      | Inr token \<Rightarrow> w\<lparr>ctx := (ctx w)\<lparr>userToken := token\<rparr>\<rparr>)"

definition useEffect_finally :: "world \<Rightarrow> world" where
  "useEffect_finally w = w\<lparr>ctx := (ctx w)\<lparr>isLoading := False\<rparr>\<rparr>"

text \<open>The whole initial effect: the state once both callbacks have run.\<close>

definition useEffect_init :: "outcome \<Rightarrow> world \<Rightarrow> world" where
  "useEffect_init io w = useEffect_finally (useEffect_then io w)"

text \<open>
  \<open>login\<close>: \<open>await AsyncStorage.setItem(TOKEN_KEY, token); setUserToken(token)\<close>. A rejected
  write throws out of \<open>login\<close> before \<open>setUserToken\<close> is reached.
\<close>

definition login :: "outcome \<Rightarrow> string \<Rightarrow> world \<Rightarrow> (error + unit) \<times> world" where
  "login io token w =
     (case setItem io (disk w) TOKEN_KEY token of
        (Inl e, d) \<Rightarrow> (Inl e, w\<lparr>disk := d\<rparr>)
      | (Inr u, d) \<Rightarrow> (Inr (), w\<lparr>disk := d, ctx := (ctx w)\<lparr>userToken := Some token\<rparr>\<rparr>))"

text \<open>\<open>logout\<close>: \<open>await AsyncStorage.removeItem(TOKEN_KEY); setUserToken(null)\<close>.\<close>

definition logout :: "outcome \<Rightarrow> world \<Rightarrow> (error + unit) \<times> world" where
  "logout io w =
     (case removeItem io (disk w) TOKEN_KEY of
        (Inl e, d) \<Rightarrow> (Inl e, w\<lparr>disk := d\<rparr>)
      | (Inr u, d) \<Rightarrow> (Inr (), w\<lparr>disk := d, ctx := (ctx w)\<lparr>userToken := None\<rparr>\<rparr>))"

subsection \<open>Sequences of operations\<close>

text \<open>
  A session is the mount, the initial effect, and then any number of \<open>login\<close> and \<open>logout\<close>
  calls, each run to completion before the next, each with its own storage outcome.
\<close>

datatype action = Login outcome string | Logout outcome

fun perform :: "action \<Rightarrow> world \<Rightarrow> world" where
  "perform (Login io token) w = snd (login io token w)"
| "perform (Logout io) w = snd (logout io w)"

fun states_from :: "world \<Rightarrow> action list \<Rightarrow> world list" where
  "states_from w [] = [w]"
| "states_from w (a # as) = w # states_from (perform a w) as"

text \<open>
  Every state a consumer can observe during a session, in order: the mount, the state
  between the two callbacks of the initial effect (rendered when the two updates are not
  batched into one), the state after the initial effect, and the state after each action.
\<close>

definition session_trace :: "storage \<Rightarrow> outcome \<Rightarrow> action list \<Rightarrow> world list" where
  "session_trace st io acts =
     mount st # useEffect_then io (mount st) # states_from (useEffect_init io (mount st)) acts"

text \<open>An action whose storage call resolved.\<close>

fun resolved :: "action \<Rightarrow> bool" where
  "resolved (Login io token) = (io = Resolves)"
| "resolved (Logout io) = (io = Resolves)"

text \<open>The state at the end of a session.\<close>

definition session_run :: "storage \<Rightarrow> outcome \<Rightarrow> action list \<Rightarrow> world" where
  "session_run st io acts = last (session_trace st io acts)"

subsection \<open>The three states of the specification\<close>

text \<open>
  The specification's vocabulary for the Session Context, and how each of its three states
  appears in the two fields of \<open>AuthContextData\<close>.
\<close>

datatype session_state = Loading | Authenticated string | Unauthenticated


text \<open>
  The state a consumer reads off the fields: loading while the flag is set, then by the
  null check on the token.
\<close>

definition state_of :: "AuthContextData \<Rightarrow> session_state" where
  "state_of c =
     (if isLoading c then Loading
      else (case userToken c of None \<Rightarrow> Unauthenticated | Some t \<Rightarrow> Authenticated t))"

section \<open>The API client\<close>

text \<open>JSON values: request bodies and response payloads.\<close>

datatype json =
    JNull
  | JBool bool
  | JNum real
  | JStr string
  | JArr "json list"
  | JObj "(string \<times> json) list"

text \<open>The member \<open>k\<close> of an object; absent (\<open>undefined\<close>) on anything else.\<close>

fun field :: "string \<Rightarrow> json \<Rightarrow> json option" where
  "field k (JObj kvs) = map_of kvs k"
| "field k j = None"

text \<open>The test \<open>v ? a : b\<close> on a JSON value.\<close>

fun json_truthy :: "json \<Rightarrow> bool" where
  "json_truthy JNull = False"
| "json_truthy (JBool b) = b"
| "json_truthy (JNum n) = (n \<noteq> 0)"
| "json_truthy (JStr s) = (s \<noteq> [])"
| "json_truthy (JArr xs) = True"
| "json_truthy (JObj kvs) = True"

datatype http_method = GET | POST

text \<open>
  The request configuration a caller hands to the client: the path under the fixed base
  address, the headers the caller set itself, and the body.
\<close>

record request =
  meth :: http_method
  url :: string
  headers :: "string \<rightharpoonup> string"
  body :: json

definition apiClient_get :: "string \<Rightarrow> (string \<rightharpoonup> string) \<Rightarrow> request" where
  "apiClient_get path hs = \<lparr>meth = GET, url = path, headers = hs, body = JNull\<rparr>"

definition apiClient_post :: "string \<Rightarrow> json \<Rightarrow> request" where
  "apiClient_post path b = \<lparr>meth = POST, url = path, headers = Map.empty, body = b\<rparr>"

text \<open>
  The request interceptor, the same in both client files (they differ in the base address
  only): it reads the key \<open>userToken\<close> from AsyncStorage and, when the value is truthy, sets
  the Authorization header. A rejected read rejects the request, which is then not sent.
\<close>

definition requestInterceptor :: "outcome \<Rightarrow> storage \<Rightarrow> request \<Rightarrow> error + request" where
  "requestInterceptor io st config =
     (case getItem io st ''userToken'' of
        Inl e \<Rightarrow> Inl e
      | Inr token \<Rightarrow>
          Inr (if truthy token
               then config\<lparr>headers := (headers config)(''Authorization'' \<mapsto> ''Bearer '' @ interpolate token)\<rparr>
               else config))"

text \<open>The bearer credential of a request: what follows \<open>Bearer \<close> in its Authorization header.\<close>

definition bearer_credential :: "request \<Rightarrow> string option" where
  "bearer_credential r =
     (case headers r ''Authorization'' of
        None \<Rightarrow> None
      | Some h \<Rightarrow> if take 7 h = ''Bearer '' then Some (drop 7 h) else None)"

text \<open>The bearer credential of the request as transmitted, if it is transmitted.\<close>

definition transmitted_bearer :: "outcome \<Rightarrow> storage \<Rightarrow> request \<Rightarrow> string option" where
  "transmitted_bearer io st config =
     (case requestInterceptor io st config of
        Inl e \<Rightarrow> None
      | Inr r \<Rightarrow> bearer_credential r)"

text \<open>
  How a call ends for its caller: fulfilled with the response payload, or rejected, with
  \<open>error.response.data\<close> when the server answered.
\<close>

datatype response = Fulfilled json | Rejected "json option"

section \<open>The screens\<close>

text \<open>
  A handler takes the screen's state cells and what the outside answers (the response of
  each call it may issue, the clock) and returns the new state cells with the effects it
  caused, in order. The alerts are named by their content.
\<close>

datatype notice =
    BinIdRequired
  | ReportSent
  | IssueReported
  | ErrorData json
  | GenericError
  | FieldsRequired
  | RegisterSucceeded
  | FieldErrors json
  | RegisterFailed

datatype effect = Alert notice | Call request | ConsoleError

fun calls :: "effect list \<Rightarrow> request list" where
  "calls [] = []"
| "calls (Call r # es) = r # calls es"
| "calls (e # es) = calls es"

fun alerts :: "effect list \<Rightarrow> notice list" where
  "alerts [] = []"
| "alerts (Alert n # es) = n # alerts es"
| "alerts (e # es) = alerts es"

text \<open>The alert of the \<open>catch\<close> blocks of both report screens.\<close>

definition error_notice :: "json option \<Rightarrow> notice" where
  "error_notice d =
     (case d of
        None \<Rightarrow> GenericError
      | Some j \<Rightarrow> if json_truthy j then ErrorData j else GenericError)"

subsection \<open>HomeScreen\<close>

record HomeScreen =
  binId :: string
  wasteCategory :: string
  loading :: bool
  imageUri :: "string option"
  imageBase64 :: "string option"

definition HomeScreen_initial :: HomeScreen where
  "HomeScreen_initial =
     \<lparr>binId = [], wasteCategory = ''PLASTIC'', loading = False, imageUri = None,
      imageBase64 = None\<rparr>"

text \<open>\<open>submitReport\<close> of the home screen; \<open>now\<close> is \<open>new Date().toISOString()\<close>.\<close>

definition HomeScreen_submitReport ::
  "string \<Rightarrow> response \<Rightarrow> HomeScreen \<Rightarrow> HomeScreen \<times> effect list" where
  "HomeScreen_submitReport now resp s =
     (if trim (binId s) = [] then (s, [Alert BinIdRequired])
      else
        (let req = apiClient_post ''reports/create/''
               (JObj [(''bin'', JStr (trim (binId s))),
                      (''waste_category'', JStr (wasteCategory s)),
                      (''verification_method'', JStr ''QR''),
                      (''latitude'', JStr ''36.8969''),
                      (''longitude'', JStr ''30.6553''),
                      (''client_timestamp'', JStr now),
                      (''photo_base64'',
                         (case imageBase64 s of None \<Rightarrow> JNull | Some b \<Rightarrow> JStr b))])
         in case resp of
              Fulfilled r \<Rightarrow>
                (s\<lparr>binId := [], imageUri := None, imageBase64 := None, loading := False\<rparr>,
                 [Call req, Alert ReportSent])
            | Rejected d \<Rightarrow>
                (s\<lparr>loading := False\<rparr>, [Call req, Alert (error_notice d)])))"

subsection \<open>DetectiveScreen\<close>

record Coordinate =
  latitude :: real
  longitude :: real

record DetectiveScreen =
  selectedLocation :: "Coordinate option"
  userLocation :: "Coordinate option"
  reports :: json
  modalVisible :: bool
  description :: string
  d_imageUri :: string
  d_imageBase64 :: string
  d_loading :: bool

text \<open>
  \<open>Number(x.toFixed(6))\<close>: the nearest multiple of one millionth, the larger in magnitude
  of two equally near; doubles are taken as reals.
\<close>

definition Number_toFixed6 :: "real \<Rightarrow> real" where
  "Number_toFixed6 x =
     (if x < 0 then - (of_int \<lfloor>- x * 1000000 + 1 / 2\<rfloor> / 1000000)
      else of_int \<lfloor>x * 1000000 + 1 / 2\<rfloor> / 1000000)"

text \<open>\<open>response.data.results ?? response.data\<close>, for a payload other than \<open>null\<close>.\<close>

definition results_or_data :: "json \<Rightarrow> json" where
  "results_or_data j =
     (case field ''results'' j of
        None \<Rightarrow> j
      | Some v \<Rightarrow> if v = JNull then j else v)"

text \<open>
  \<open>fetchReports\<close>: on a fulfilled call whose payload is \<open>null\<close>, reading
  \<open>response.data.results\<close> throws inside the \<open>try\<close>, so the error is logged and the list is
  kept, as on a rejected call.
\<close>

definition fetchReports :: "response \<Rightarrow> DetectiveScreen \<Rightarrow> DetectiveScreen \<times> effect list" where
  "fetchReports resp s =
     (let req = apiClient_get ''detective/reports/'' Map.empty
      in case resp of
           Fulfilled r \<Rightarrow>
             (if r = JNull then (s, [Call req, ConsoleError])
              else (s\<lparr>reports := results_or_data r\<rparr>, [Call req]))
         | Rejected d \<Rightarrow> (s, [Call req, ConsoleError]))"

definition closeModal :: "DetectiveScreen \<Rightarrow> DetectiveScreen" where
  "closeModal s = s\<lparr>modalVisible := False, description := [], d_imageUri := [], d_imageBase64 := []\<rparr>"

text \<open>
  \<open>submitReport\<close> of the detective screen; \<open>fetched\<close> answers the re-fetch that a
  successful submission starts.
\<close>

definition DetectiveScreen_submitReport ::
  "response \<Rightarrow> response \<Rightarrow> DetectiveScreen \<Rightarrow> DetectiveScreen \<times> effect list" where
  "DetectiveScreen_submitReport resp fetched s =
     (case selectedLocation s of
        None \<Rightarrow> (s, [])
      | Some loc \<Rightarrow>
          (let req = apiClient_post ''detective/reports/''
                 (JObj [(''latitude'', JNum (Number_toFixed6 (latitude loc))),
                        (''longitude'', JNum (Number_toFixed6 (longitude loc))),
                        (''description'', JStr (description s)),
                        (''problem_type'', JStr ''OTHER''),
                        (''photo_base64'', JStr (d_imageBase64 s))])
           in case resp of
                Fulfilled r \<Rightarrow>
                  (let (s', es) = fetchReports fetched ((closeModal s)\<lparr>selectedLocation := None\<rparr>)
                   in (s'\<lparr>d_loading := False\<rparr>, [Call req, Alert IssueReported] @ es))
              | Rejected d \<Rightarrow>
                  (s\<lparr>d_loading := False\<rparr>, [Call req, Alert (error_notice d)])))"

subsection \<open>RegisterScreen\<close>

record RegisterScreen =
  firstName :: string
  lastName :: string
  email :: string
  password :: string
  r_loading :: bool

definition handleRegister :: "response \<Rightarrow> RegisterScreen \<Rightarrow> RegisterScreen \<times> effect list" where
  "handleRegister resp s =
     (if trim (firstName s) = [] \<or> trim (lastName s) = [] \<or> trim (email s) = [] \<or> password s = []
      then (s, [Alert FieldsRequired])
      else
        (let req = apiClient_post ''auth/register/''
               (JObj [(''first_name'', JStr (trim (firstName s))),
                      (''last_name'', JStr (trim (lastName s))),
                      (''email'', JStr (toLowerCase (trim (email s)))),
                      (''username'', JStr (hd (js_split CHR ''@'' (toLowerCase (trim (email s)))))),
                      (''password'', JStr (password s))])
         in (s\<lparr>r_loading := False\<rparr>,
             [Call req,
              Alert (case resp of
                       Fulfilled r \<Rightarrow> RegisterSucceeded
                     | Rejected None \<Rightarrow> RegisterFailed
                     | Rejected (Some j) \<Rightarrow>
                         if json_truthy j then FieldErrors j else RegisterFailed)])))"

subsection \<open>ProfileScreen and LeaderboardScreen\<close>

text \<open>
  Both screens read \<open>userToken\<close> from the context and hand the client a configuration with
  an Authorization header of their own, built by a template literal.
\<close>

definition ProfileScreen_request :: "string option \<Rightarrow> request" where
  "ProfileScreen_request token =
     apiClient_get ''auth/me/'' [''Authorization'' \<mapsto> ''Bearer '' @ interpolate token]"

definition fetchLeaderboard_request :: "string option \<Rightarrow> request" where
  "fetchLeaderboard_request token =
     apiClient_get ''auth/leaderboard/'' [''Authorization'' \<mapsto> ''Bearer '' @ interpolate token]"

record ProfileScreen =
  profile :: "json option"
  p_loading :: bool

text \<open>The effect of the profile screen, run once on mount with the token of that render.\<close>

definition ProfileScreen_useEffect ::
  "string option \<Rightarrow> response \<Rightarrow> ProfileScreen \<Rightarrow> ProfileScreen \<times> effect list" where
  "ProfileScreen_useEffect token resp s =
     (case resp of
        Fulfilled r \<Rightarrow> (s\<lparr>profile := Some r, p_loading := False\<rparr>, [Call (ProfileScreen_request token)])
      | Rejected d \<Rightarrow> (s\<lparr>p_loading := False\<rparr>, [Call (ProfileScreen_request token), ConsoleError]))"

record LeaderboardScreen =
  l_data :: json
  l_loading :: bool

definition fetchLeaderboard ::
  "string option \<Rightarrow> response \<Rightarrow> LeaderboardScreen \<Rightarrow> LeaderboardScreen \<times> effect list" where
  "fetchLeaderboard token resp s =
     (case resp of
        Fulfilled r \<Rightarrow> (s\<lparr>l_data := r, l_loading := False\<rparr>, [Call (fetchLeaderboard_request token)])
      | Rejected d \<Rightarrow> (s\<lparr>l_loading := False\<rparr>, [Call (fetchLeaderboard_request token), ConsoleError]))"

subsection \<open>The drafts and sample states\<close>

text \<open>The pending report of the home screen, and the pending report of the detective screen.\<close>

definition HomeScreen_draft :: "HomeScreen \<Rightarrow> string \<times> string \<times> string option \<times> string option" where
  "HomeScreen_draft s = (binId s, wasteCategory s, imageUri s, imageBase64 s)"

definition DetectiveScreen_draft :: "DetectiveScreen \<Rightarrow> Coordinate option \<times> string \<times> string \<times> string" where
  "DetectiveScreen_draft s = (selectedLocation s, description s, d_imageUri s, d_imageBase64 s)"

definition sample_home :: HomeScreen where
  "sample_home =
     \<lparr>binId = '' B1 '', wasteCategory = ''GLASS'', loading = False, imageUri = Some ''file:///p.jpg'',
      imageBase64 = Some ''aGk=''\<rparr>"

definition sample_detective :: DetectiveScreen where
  "sample_detective =
     \<lparr>selectedLocation = Some \<lparr>latitude = 36.8969, longitude = 30.6553\<rparr>, userLocation = None,
      reports = JArr [], modalVisible = True, description = [], d_imageUri = [],
      d_imageBase64 = [], d_loading = False\<rparr>"

definition sample_register :: RegisterScreen where
  "sample_register =
     \<lparr>firstName = ''Ada'', lastName = ''Lovelace'', email = '' Ada.L@X.edu '', password = ''p'',
      r_loading = False\<rparr>"

section \<open>Properties of the session\<close>

lemma perform_keeps_settled: "\<not> isLoading (ctx w) \<Longrightarrow> \<not> isLoading (ctx (perform a w))"
  by (cases a) (auto simp: login_def logout_def setItem_def removeItem_def split: outcome.splits)

lemma states_from_settled:
  "\<not> isLoading (ctx w) \<Longrightarrow> v \<in> set (states_from w acts) \<Longrightarrow> \<not> isLoading (ctx v)"
proof (induction acts arbitrary: w)
  case Nil
  then show ?case by simp
next
  case (Cons a acts)
  from Cons.prems(2) have "v = w \<or> v \<in> set (states_from (perform a w) acts)" by simp
  then show ?case
  proof
    assume "v = w"
    with Cons.prems(1) show ?thesis by simp
  next
    assume "v \<in> set (states_from (perform a w) acts)"
    with Cons.IH [OF perform_keeps_settled [OF Cons.prems(1)]] show ?thesis by simp
  qed
qed

lemma states_from_nonempty: "states_from w acts \<noteq> []"
  by (cases acts) simp_all

lemma last_states_from_mem: "last (states_from w acts) \<in> set (states_from w acts)"
  using states_from_nonempty by (rule last_in_set)

lemma useEffect_init_settled: "\<not> isLoading (ctx (useEffect_init io w))"
  by (simp add: useEffect_init_def useEffect_then_def useEffect_finally_def getItem_def split: outcome.splits)

lemma session_run_settled: "\<not> isLoading (ctx (session_run st io acts))"
proof -
  have "session_run st io acts = last (states_from (useEffect_init io (mount st)) acts)"
    by (simp add: session_run_def session_trace_def states_from_nonempty)
  then show ?thesis
    using states_from_settled [OF useEffect_init_settled last_states_from_mem] by simp
qed


lemma login_resolved:
  "fst (login io t w) = Inr () \<Longrightarrow>
     disk (snd (login io t w)) TOKEN_KEY = Some t \<and>
     ctx (snd (login io t w)) = (ctx w)\<lparr>userToken := Some t\<rparr>"
  by (cases io) (simp_all add: login_def setItem_def)

lemma logout_resolved:
  "disk (snd (logout Resolves w)) TOKEN_KEY = None \<and>
   ctx (snd (logout Resolves w)) = (ctx w)\<lparr>userToken := None\<rparr>"
  by (simp add: logout_def removeItem_def)

text \<open>
  C2. After \<open>login t\<close> has completed without an error, from any state, a read of the token
  store returns \<open>t\<close> and the context's token is \<open>t\<close>; in any session (the initial effect
  done, then any logins and logouts) the context then reports \<open>Authenticated t\<close>.
\<close>

theorem login_success_persists_and_authenticates:
  "fst (login io t w) = Inr () \<Longrightarrow>
     getItem Resolves (disk (snd (login io t w))) TOKEN_KEY = Inr (Some t) \<and>
     userToken (ctx (snd (login io t w))) = Some t \<and>
     state_of (ctx (snd (login io t (session_run st i acts)))) = Authenticated t"
proof -
  assume ok: "fst (login io t w) = Inr ()"
  then have io: "io = Resolves"
    by (cases io) (simp_all add: login_def setItem_def)
  have "fst (login io t (session_run st i acts)) = Inr ()"
    by (simp add: io login_def setItem_def)
  from login_resolved [OF this] have
    "ctx (snd (login io t (session_run st i acts))) =
       (ctx (session_run st i acts))\<lparr>userToken := Some t\<rparr>" by simp
  then have "state_of (ctx (snd (login io t (session_run st i acts)))) = Authenticated t"
    using session_run_settled [of st i acts] by (simp add: state_of_def)
  with login_resolved [OF ok] show ?thesis
    by (simp add: getItem_def)
qed

theorem login_success_witness:
  "fst (login Resolves ''tok123'' (mount Map.empty)) = Inr () \<and>
   getItem Resolves (disk (snd (login Resolves ''tok123'' (mount Map.empty)))) TOKEN_KEY
     = Inr (Some ''tok123'') \<and>
   state_of (ctx (snd (login Resolves ''tok123''
     (session_run Map.empty Resolves [Logout Resolves])))) = Authenticated ''tok123''"
proof -
  have h: "fst (login Resolves ''tok123'' (mount Map.empty)) = Inr ()"
    by (simp add: login_def setItem_def)
  from login_success_persists_and_authenticates [OF h, of Map.empty Resolves "[Logout Resolves]"]
  show ?thesis using h by simp
qed

text \<open>
  C3. If the write of the token inside \<open>login t\<close> fails, \<open>login\<close> fails with the same error
  and the context's fields are what they were before the call, whatever they were.
\<close>

theorem login_failure_keeps_context:
  "fst (setItem io (disk w) TOKEN_KEY t) = Inl e \<Longrightarrow>
     fst (login io t w) = Inl e \<and> ctx (snd (login io t w)) = ctx w"
  by (cases io) (simp_all add: login_def setItem_def)

theorem login_failure_witness:
  "fst (setItem Rejects (disk (session_run Map.empty Resolves [])) TOKEN_KEY ''tok123'')
     = Inl StorageError \<and>
   fst (login Rejects ''tok123'' (session_run Map.empty Resolves [])) = Inl StorageError \<and>
   ctx (snd (login Rejects ''tok123'' (session_run Map.empty Resolves [])))
     = ctx (session_run Map.empty Resolves [])"
proof -
  have h: "fst (setItem Rejects (disk (session_run Map.empty Resolves [])) TOKEN_KEY ''tok123'')
             = Inl StorageError"
    by (simp add: setItem_def)
  from login_failure_keeps_context [OF h] show ?thesis using h by simp
qed

text \<open>
  C4. After a completed \<open>logout\<close>, from any state, a read of the token store returns absent
  and the context's token is \<open>null\<close>; in any session the context then reports
  \<open>Unauthenticated\<close>. Two logouts in a row end in the same store and the same context as
  one, from every starting state.
\<close>

theorem logout_clears_and_is_idempotent:
  "getItem Resolves (disk (snd (logout Resolves w))) TOKEN_KEY = Inr None \<and>
   userToken (ctx (snd (logout Resolves w))) = None \<and>
   state_of (ctx (snd (logout Resolves (session_run st i acts)))) = Unauthenticated \<and>
   snd (logout io (snd (logout io w))) = snd (logout io w)"
proof -
  have a: "getItem Resolves (disk (snd (logout Resolves w))) TOKEN_KEY = Inr None"
    using logout_resolved [of w] by (simp add: getItem_def)
  have b: "userToken (ctx (snd (logout Resolves w))) = None"
    using logout_resolved [of w] by simp
  have c: "state_of (ctx (snd (logout Resolves (session_run st i acts)))) = Unauthenticated"
    using logout_resolved [of "session_run st i acts"] session_run_settled [of st i acts]
    by (simp add: state_of_def)
  have d: "snd (logout io (snd (logout io w))) = snd (logout io w)"
    by (cases io) (simp_all add: logout_def removeItem_def)
  from a b c d show ?thesis by simp
qed

theorem logout_witness:
  "state_of (ctx (snd (logout Resolves
      (session_run Map.empty Resolves [Login Resolves ''tok123'']))))
     = Unauthenticated \<and>
   snd (logout Resolves (snd (logout Resolves
      (session_run Map.empty Resolves [Login Resolves ''tok123'']))))
     = snd (logout Resolves (session_run Map.empty Resolves [Login Resolves ''tok123'']))"
  using logout_clears_and_is_idempotent
    [of "session_run Map.empty Resolves [Login Resolves ''tok123'']"
        Map.empty Resolves "[Login Resolves ''tok123'']" Resolves]
  by simp






section \<open>Properties of the API client\<close>

lemma last_states_from_invariant:
  assumes step: "\<And>a v. P v \<Longrightarrow> P (perform a v)" and start: "P w"
  shows "P (last (states_from w acts))"
  using start
proof (induction acts arbitrary: w)
  case Nil
  then show ?case by simp
next
  case (Cons a acts)
  from Cons.IH [OF step [OF Cons.prems]] show ?case
    by (simp add: states_from_nonempty)
qed

lemma perform_keeps_mirror:
  "userToken (ctx w) = None \<or> userToken (ctx w) = disk w TOKEN_KEY \<Longrightarrow>
     userToken (ctx (perform a w)) = None \<or>
     userToken (ctx (perform a w)) = disk (perform a w) TOKEN_KEY"
  by (cases a) (auto simp: login_def logout_def setItem_def removeItem_def split: outcome.splits)

lemma session_mirrors_token:
  "userToken (ctx (session_run st io acts)) = None \<or>
   userToken (ctx (session_run st io acts)) = disk (session_run st io acts) TOKEN_KEY"
proof -
  let ?w = "useEffect_init io (mount st)"
  have start: "userToken (ctx ?w) = None \<or> userToken (ctx ?w) = disk ?w TOKEN_KEY"
    by (cases io)
       (simp_all add: useEffect_init_def useEffect_then_def useEffect_finally_def getItem_def
          mount_def)
  have run: "session_run st io acts = last (states_from ?w acts)"
    by (simp add: session_run_def session_trace_def states_from_nonempty)
  show ?thesis
    unfolding run
    by (rule last_states_from_invariant
          [where P = "\<lambda>w. userToken (ctx w) = None \<or> userToken (ctx w) = disk w TOKEN_KEY"])
       (simp_all add: perform_keeps_mirror start)
qed

lemma perform_keeps_cleared:
  "userToken (ctx w) \<noteq> None \<or> \<not> truthy (disk w TOKEN_KEY) \<Longrightarrow>
     userToken (ctx (perform a w)) \<noteq> None \<or> \<not> truthy (disk (perform a w) TOKEN_KEY)"
  by (cases a) (auto simp: login_def logout_def setItem_def removeItem_def split: outcome.splits)

lemma resolved_makes_cleared:
  "resolved a \<Longrightarrow>
     userToken (ctx (perform a w)) \<noteq> None \<or> \<not> truthy (disk (perform a w) TOKEN_KEY)"
  by (cases a) (auto simp: login_def logout_def setItem_def removeItem_def)

lemma states_from_cleared:
  "(userToken (ctx w) \<noteq> None \<or> \<not> truthy (disk w TOKEN_KEY)) \<or> list_ex resolved acts \<Longrightarrow>
     userToken (ctx (last (states_from w acts))) \<noteq> None \<or>
     \<not> truthy (disk (last (states_from w acts)) TOKEN_KEY)"
proof (induction acts arbitrary: w)
  case Nil
  then show ?case by simp
next
  case (Cons a acts)
  have "(userToken (ctx (perform a w)) \<noteq> None \<or> \<not> truthy (disk (perform a w) TOKEN_KEY))
          \<or> list_ex resolved acts"
  proof (cases "resolved a")
    case True
    then show ?thesis using resolved_makes_cleared [of a w] by simp
  next
    case False
    with Cons.prems perform_keeps_cleared [of w a] show ?thesis by auto
  qed
  from Cons.IH [OF this] show ?case
    by (simp add: states_from_nonempty)
qed

lemma session_cleared:
  assumes "io = Resolves \<or> list_ex resolved acts \<or> \<not> truthy (st TOKEN_KEY)"
  shows "userToken (ctx (session_run st io acts)) \<noteq> None \<or>
         \<not> truthy (disk (session_run st io acts) TOKEN_KEY)"
proof -
  let ?w = "useEffect_init io (mount st)"
  have run: "session_run st io acts = last (states_from ?w acts)"
    by (simp add: session_run_def session_trace_def states_from_nonempty)
  have d: "disk ?w = st"
    by (cases io)
       (simp_all add: useEffect_init_def useEffect_then_def useEffect_finally_def getItem_def
          mount_def)
  have r: "io = Resolves \<Longrightarrow> userToken (ctx ?w) = st TOKEN_KEY"
    by (simp add: useEffect_init_def useEffect_then_def useEffect_finally_def getItem_def
        mount_def)
  have "(userToken (ctx ?w) \<noteq> None \<or> \<not> truthy (disk ?w TOKEN_KEY)) \<or> list_ex resolved acts"
  proof (cases "list_ex resolved acts")
    case True
    then show ?thesis by simp
  next
    case False
    with assms have "io = Resolves \<or> \<not> truthy (st TOKEN_KEY)" by simp
    then show ?thesis
    proof
      assume "io = Resolves"
      from r [OF this] d show ?thesis by (cases "st TOKEN_KEY") simp_all
    next
      assume "\<not> truthy (st TOKEN_KEY)"
      with d show ?thesis by simp
    qed
  qed
  from states_from_cleared [OF this] show ?thesis
    unfolding run .
qed

lemma bearer_of_attached:
  "bearer_credential (config\<lparr>headers := (headers config)(''Authorization'' \<mapsto> ''Bearer '' @ t)\<rparr>) = Some t"
  by (simp add: bearer_credential_def)

lemma interceptor_truthy:
  "st ''userToken'' = Some t \<Longrightarrow> t \<noteq> [] \<Longrightarrow>
     requestInterceptor Resolves st config =
       Inr (config\<lparr>headers := (headers config)(''Authorization'' \<mapsto> ''Bearer '' @ t)\<rparr>)"
  by (simp add: requestInterceptor_def getItem_def)

lemma interceptor_falsy:
  "\<not> truthy (st ''userToken'') \<Longrightarrow> requestInterceptor Resolves st config = Inr config"
  by (simp add: requestInterceptor_def getItem_def)

text \<open>
  C1, as the code has it. The interceptor reads the token from AsyncStorage, not from the
  context: a stored non-empty token \<open>t\<close> becomes the header \<open>Authorization: Bearer t\<close>,
  replacing any the caller set; with no stored token, or an empty one, the caller's
  configuration is sent as it is. So in every session, whatever the outcome of the initial
  read, a call issued while the context reports \<open>Authenticated t\<close>, \<open>t\<close> non-empty,
  carries \<open>t\<close> as its bearer credential. A call issued while the context reports
  \<open>Unauthenticated\<close> is sent as its caller configured it, hence without a bearer
  credential when the caller set no Authorization header, provided the initial read
  resolved, or a login or logout has completed since, or no non-empty token was stored at
  the mount.
\<close>

theorem interceptor_attaches_stored_token:
  "(st ''userToken'' = Some t \<and> t \<noteq> [] \<longrightarrow>
      requestInterceptor Resolves st config =
        Inr (config\<lparr>headers := (headers config)(''Authorization'' \<mapsto> ''Bearer '' @ t)\<rparr>)) \<and>
   (\<not> truthy (st ''userToken'') \<longrightarrow> requestInterceptor Resolves st config = Inr config) \<and>
   (state_of (ctx (session_run st0 io acts)) = Authenticated t \<and> t \<noteq> [] \<longrightarrow>
      transmitted_bearer Resolves (disk (session_run st0 io acts)) config = Some t) \<and>
   (state_of (ctx (session_run st0 io acts)) = Unauthenticated \<and>
      (io = Resolves \<or> list_ex resolved acts \<or> \<not> truthy (st0 ''userToken'')) \<longrightarrow>
      requestInterceptor Resolves (disk (session_run st0 io acts)) config = Inr config \<and>
      (headers config ''Authorization'' = None \<longrightarrow>
         transmitted_bearer Resolves (disk (session_run st0 io acts)) config = None))"
proof -
  let ?w = "session_run st0 io acts"
  have settled: "\<not> isLoading (ctx ?w)"
    by (rule session_run_settled)
  have auth: "transmitted_bearer Resolves (disk ?w) config = Some t"
    if "state_of (ctx ?w) = Authenticated t" and "t \<noteq> []"
  proof -
    from that(1) settled have "userToken (ctx ?w) = Some t"
      by (simp add: state_of_def split: option.splits)
    with session_mirrors_token [of st0 io acts] have "disk ?w ''userToken'' = Some t"
      by (simp add: TOKEN_KEY_def)
    then have "requestInterceptor Resolves (disk ?w) config =
        Inr (config\<lparr>headers := (headers config)(''Authorization'' \<mapsto> ''Bearer '' @ t)\<rparr>)"
      using that(2) by (rule interceptor_truthy)
    then show ?thesis
      by (simp only: transmitted_bearer_def sum.case bearer_of_attached)
  qed
  have unauth: "requestInterceptor Resolves (disk ?w) config = Inr config"
    if "state_of (ctx ?w) = Unauthenticated"
      and "io = Resolves \<or> list_ex resolved acts \<or> \<not> truthy (st0 ''userToken'')"
  proof -
    from that(1) settled have "userToken (ctx ?w) = None"
      by (simp add: state_of_def split: option.splits)
    moreover from that(2) have "io = Resolves \<or> list_ex resolved acts \<or> \<not> truthy (st0 TOKEN_KEY)"
      by (simp add: TOKEN_KEY_def)
    ultimately have "\<not> truthy (disk ?w ''userToken'')"
      using session_cleared [of io acts st0] by (simp add: TOKEN_KEY_def)
    then show ?thesis
      by (rule interceptor_falsy)
  qed
  have bare: "transmitted_bearer Resolves (disk ?w) config = None"
    if "requestInterceptor Resolves (disk ?w) config = Inr config"
      and "headers config ''Authorization'' = None"
    using that by (simp add: transmitted_bearer_def bearer_credential_def)
  from auth unauth bare show ?thesis
    by (simp add: interceptor_truthy interceptor_falsy)
qed

theorem interceptor_attaches_stored_token_witness:
  "state_of (ctx (session_run Map.empty Rejects [Login Resolves ''tok123'']))
     = Authenticated ''tok123'' \<and>
   transmitted_bearer Resolves (disk (session_run Map.empty Rejects [Login Resolves ''tok123'']))
     (apiClient_get ''reports/tasks/'' Map.empty) = Some ''tok123'' \<and>
   state_of (ctx (session_run Map.empty Resolves [])) = Unauthenticated \<and>
   transmitted_bearer Resolves (disk (session_run Map.empty Resolves []))
     (apiClient_get ''reports/tasks/'' Map.empty) = None"
proof -
  have a: "state_of (ctx (session_run Map.empty Rejects [Login Resolves ''tok123'']))
             = Authenticated ''tok123''"
    by (simp add: session_run_def session_trace_def mount_def useEffect_init_def
        useEffect_then_def useEffect_finally_def getItem_def login_def setItem_def state_of_def)
  have u: "state_of (ctx (session_run Map.empty Resolves [])) = Unauthenticated"
    by (simp add: session_run_def session_trace_def mount_def useEffect_init_def
        useEffect_then_def useEffect_finally_def getItem_def state_of_def)
  have h: "headers (apiClient_get ''reports/tasks/'' Map.empty) ''Authorization'' = None"
    by (simp add: apiClient_get_def)
  from interceptor_attaches_stored_token
         [where st = Map.empty and t = "''tok123''"
            and config = "apiClient_get ''reports/tasks/'' Map.empty"
            and ?st0.0 = Map.empty and io = Rejects and acts = "[Login Resolves ''tok123'']"]
       interceptor_attaches_stored_token
         [where st = Map.empty and t = "''tok123''"
            and config = "apiClient_get ''reports/tasks/'' Map.empty"
            and ?st0.0 = Map.empty and io = Resolves and acts = "[]"]
       a u h
  show ?thesis by simp
qed

text \<open>
  C1 as stated fails. With a token in the store and the initial read rejected, the context
  settles to \<open>Unauthenticated\<close>, and the registration call still carries the stored token.
  After a login with the empty token the context reports \<open>Authenticated\<close> with that token,
  and the report call carries no bearer credential.
\<close>

theorem unauthenticated_call_carries_bearer:
  "state_of (ctx (session_run [''userToken'' \<mapsto> ''tok123''] Rejects [])) = Unauthenticated \<and>
   transmitted_bearer Resolves (disk (session_run [''userToken'' \<mapsto> ''tok123''] Rejects []))
     (hd (calls (snd (handleRegister (Fulfilled JNull) sample_register)))) = Some ''tok123'' \<and>
   state_of (ctx (session_run Map.empty Resolves [Login Resolves []])) = Authenticated [] \<and>
   transmitted_bearer Resolves (disk (session_run Map.empty Resolves [Login Resolves []]))
     (hd (calls (snd (HomeScreen_submitReport ''2024-05-01T10:00:00.000Z'' (Fulfilled JNull)
        sample_home)))) = None"
  by (simp add: session_run_def session_trace_def mount_def useEffect_init_def
      useEffect_then_def useEffect_finally_def getItem_def login_def setItem_def
      state_of_def transmitted_bearer_def requestInterceptor_def bearer_credential_def
      HomeScreen_submitReport_def sample_home_def trim_def isWhiteSpace_def apiClient_post_def
      TOKEN_KEY_def Let_def)

text \<open>
  C9. With the context's token \<open>null\<close>, the profile fetch and the leaderboard fetch hand the
  client an Authorization header of value \<open>Bearer null\<close>; it is the one call each of them
  issues; and with no truthy token in the store the interceptor leaves it in place, so the
  request is sent with that header rather than without one.
\<close>

theorem fetches_attach_bearer_null:
  "headers (ProfileScreen_request None) ''Authorization'' = Some ''Bearer null'' \<and>
   headers (fetchLeaderboard_request None) ''Authorization'' = Some ''Bearer null'' \<and>
   calls (snd (ProfileScreen_useEffect None resp p)) = [ProfileScreen_request None] \<and>
   calls (snd (fetchLeaderboard None resp l)) = [fetchLeaderboard_request None] \<and>
   (\<not> truthy (st ''userToken'') \<longrightarrow>
      requestInterceptor Resolves st (ProfileScreen_request None) = Inr (ProfileScreen_request None) \<and>
      requestInterceptor Resolves st (fetchLeaderboard_request None)
        = Inr (fetchLeaderboard_request None))"
  by (cases resp)
     (simp_all add: ProfileScreen_request_def fetchLeaderboard_request_def apiClient_get_def
        ProfileScreen_useEffect_def fetchLeaderboard_def interceptor_falsy)

theorem fetches_attach_bearer_null_witness:
  "\<not> truthy (Map.empty ''userToken'') \<and>
   requestInterceptor Resolves Map.empty (ProfileScreen_request None)
     = Inr (ProfileScreen_request None) \<and>
   headers (ProfileScreen_request None) ''Authorization'' = Some ''Bearer null'' \<and>
   headers (fetchLeaderboard_request None) ''Authorization'' = Some ''Bearer null''"
  using fetches_attach_bearer_null [of "Fulfilled JNull" "\<lparr>profile = None, p_loading = True\<rparr>"
      "\<lparr>l_data = JArr [], l_loading = True\<rparr>" Map.empty]
  by simp

section \<open>Properties of the screens\<close>

lemma js_split_nonempty: "js_split sep s \<noteq> []"
  by (induction s) (auto split: list.splits)

lemma hd_js_split: "hd (js_split sep s) = takeWhile (\<lambda>c. c \<noteq> sep) s"
  by (induction s) (auto simp: js_split_nonempty split: list.splits)

text \<open>
  C6, as the code has it. On the home screen a bin identifier that is empty once trimmed is
  rejected with the validation alert: no call is issued and the state is unchanged. On the
  detective screen the one local check is that a location is selected: without one the
  handler returns without a message and without a call. The description is not checked:
  with a location selected the report is posted with the description as entered.
\<close>

theorem local_validation_before_network:
  "(trim (binId h) = [] \<longrightarrow> HomeScreen_submitReport now resp h = (h, [Alert BinIdRequired])) \<and>
   (selectedLocation d = None \<longrightarrow> DetectiveScreen_submitReport resp fetched d = (d, [])) \<and>
   (selectedLocation d \<noteq> None \<longrightarrow>
      url (hd (calls (snd (DetectiveScreen_submitReport resp fetched d)))) = ''detective/reports/'' \<and>
      meth (hd (calls (snd (DetectiveScreen_submitReport resp fetched d)))) = POST \<and>
      field ''description'' (body (hd (calls (snd (DetectiveScreen_submitReport resp fetched d)))))
        = Some (JStr (description d)))"
  by (cases resp; cases fetched)
     (auto simp: HomeScreen_submitReport_def DetectiveScreen_submitReport_def fetchReports_def
        apiClient_post_def Let_def)

theorem local_validation_witness:
  "trim (binId HomeScreen_initial) = [] \<and>
   calls (snd (HomeScreen_submitReport ''2024-05-01T10:00:00.000Z'' (Fulfilled JNull)
      HomeScreen_initial)) = [] \<and>
   alerts (snd (HomeScreen_submitReport ''2024-05-01T10:00:00.000Z'' (Fulfilled JNull)
      HomeScreen_initial)) = [BinIdRequired] \<and>
   selectedLocation (sample_detective\<lparr>selectedLocation := None\<rparr>) = None \<and>
   snd (DetectiveScreen_submitReport (Fulfilled JNull) (Fulfilled (JArr []))
      (sample_detective\<lparr>selectedLocation := None\<rparr>)) = [] \<and>
   selectedLocation sample_detective \<noteq> None \<and>
   field ''description'' (body (hd (calls (snd (DetectiveScreen_submitReport (Fulfilled JNull)
      (Fulfilled (JArr [])) sample_detective))))) = Some (JStr [])"
proof -
  have a: "trim (binId HomeScreen_initial) = []"
    by (simp add: HomeScreen_initial_def trim_def)
  have b: "selectedLocation (sample_detective\<lparr>selectedLocation := None\<rparr>) = None"
    by simp
  have c: "selectedLocation sample_detective \<noteq> None"
    by (simp add: sample_detective_def)
  have e: "description sample_detective = []"
    by (simp add: sample_detective_def)
  from local_validation_before_network
         [of HomeScreen_initial "''2024-05-01T10:00:00.000Z''" "Fulfilled JNull"
             "sample_detective\<lparr>selectedLocation := None\<rparr>" "Fulfilled (JArr [])"]
       local_validation_before_network
         [of HomeScreen_initial "''2024-05-01T10:00:00.000Z''" "Fulfilled JNull"
             sample_detective "Fulfilled (JArr [])"]
       a b c e
  show ?thesis by simp
qed

text \<open>
  C6 as stated fails on the detective screen: with a location selected and the description
  empty, no validation alert is raised and the report is posted, its description empty.
\<close>

theorem detective_empty_description_is_posted:
  "description sample_detective = [] \<and>
   alerts (snd (DetectiveScreen_submitReport (Rejected None) (Rejected None) sample_detective))
     = [GenericError] \<and>
   map url (calls (snd (DetectiveScreen_submitReport (Rejected None) (Rejected None)
      sample_detective))) = [''detective/reports/''] \<and>
   map meth (calls (snd (DetectiveScreen_submitReport (Rejected None) (Rejected None)
      sample_detective))) = [POST] \<and>
   map (field ''description'' \<circ> body) (calls (snd (DetectiveScreen_submitReport (Rejected None)
      (Rejected None) sample_detective))) = [Some (JStr [])]"
  by (simp add: sample_detective_def DetectiveScreen_submitReport_def apiClient_post_def
      error_notice_def Let_def)

text \<open>
  C7, as the code has it. When the call of a submission fails, the draft of either screen is
  what it was. When it succeeds, the home screen empties the bin identifier and the photo
  and keeps the selected waste category; the detective screen empties the description and
  the photo, drops the selected location, closes the dialog, and issues the fetch of the
  report list after the post.
\<close>

theorem submission_outcome_and_draft:
  "(trim (binId h) \<noteq> [] \<longrightarrow>
      HomeScreen_draft (fst (HomeScreen_submitReport now (Rejected e) h)) = HomeScreen_draft h \<and>
      HomeScreen_draft (fst (HomeScreen_submitReport now (Fulfilled r) h))
        = ([], wasteCategory h, None, None)) \<and>
   (selectedLocation d \<noteq> None \<longrightarrow>
      DetectiveScreen_draft (fst (DetectiveScreen_submitReport (Rejected e) fetched d))
        = DetectiveScreen_draft d \<and>
      modalVisible (fst (DetectiveScreen_submitReport (Rejected e) fetched d)) = modalVisible d \<and>
      DetectiveScreen_draft (fst (DetectiveScreen_submitReport (Fulfilled r) fetched d))
        = (None, [], [], []) \<and>
      \<not> modalVisible (fst (DetectiveScreen_submitReport (Fulfilled r) fetched d)) \<and>
      last (calls (snd (DetectiveScreen_submitReport (Fulfilled r) fetched d)))
        = apiClient_get ''detective/reports/'' Map.empty \<and>
      length (calls (snd (DetectiveScreen_submitReport (Fulfilled r) fetched d))) = 2)"
  by (cases fetched)
     (auto simp: HomeScreen_submitReport_def DetectiveScreen_submitReport_def fetchReports_def
        HomeScreen_draft_def DetectiveScreen_draft_def closeModal_def Let_def split: if_splits)

theorem submission_outcome_witness:
  "trim (binId sample_home) \<noteq> [] \<and>
   HomeScreen_draft (fst (HomeScreen_submitReport ''2024-05-01T10:00:00.000Z'' (Rejected None)
      sample_home)) = HomeScreen_draft sample_home \<and>
   HomeScreen_draft (fst (HomeScreen_submitReport ''2024-05-01T10:00:00.000Z'' (Fulfilled JNull)
      sample_home)) = ([], ''GLASS'', None, None) \<and>
   selectedLocation sample_detective \<noteq> None \<and>
   DetectiveScreen_draft (fst (DetectiveScreen_submitReport (Fulfilled JNull) (Fulfilled (JArr []))
      sample_detective)) = (None, [], [], [])"
proof -
  have a: "trim (binId sample_home) \<noteq> []"
    by (simp add: sample_home_def trim_def isWhiteSpace_def)
  have b: "selectedLocation sample_detective \<noteq> None"
    by (simp add: sample_detective_def)
  have c: "wasteCategory sample_home = ''GLASS''"
    by (simp add: sample_home_def)
  from submission_outcome_and_draft
         [of sample_home "''2024-05-01T10:00:00.000Z''" None JNull sample_detective
             "Fulfilled (JArr [])"]
       a b c
  show ?thesis by simp
qed

text \<open>
  C7 as stated fails on the home screen: after a successful submission with the category
  \<open>GLASS\<close> selected, the draft is not the empty draft of a fresh screen, since the
  category is still \<open>GLASS\<close>.
\<close>

theorem home_success_keeps_category:
  "HomeScreen_draft (fst (HomeScreen_submitReport ''2024-05-01T10:00:00.000Z'' (Fulfilled JNull)
      sample_home)) \<noteq> HomeScreen_draft HomeScreen_initial \<and>
   wasteCategory (fst (HomeScreen_submitReport ''2024-05-01T10:00:00.000Z'' (Fulfilled JNull)
      sample_home)) = ''GLASS'' \<and>
   wasteCategory HomeScreen_initial = ''PLASTIC'' \<and>
   calls (snd (HomeScreen_submitReport ''2024-05-01T10:00:00.000Z'' (Fulfilled JNull)
      sample_home)) \<noteq> []"
  by (simp add: sample_home_def HomeScreen_initial_def HomeScreen_submitReport_def
      HomeScreen_draft_def trim_def isWhiteSpace_def Let_def)

text \<open>
  C8. A registration form with all four fields filled issues exactly one request (any
  other form issues none), and every registration request carries, beside the trimmed
  first and last name, the trimmed and lowercased email and the password, a username that
  is the text of that trimmed, lowercased email before its first \<open>@\<close>.
\<close>

theorem register_username_is_local_part:
  "length (calls (snd (handleRegister resp s)))
     = (if trim (firstName s) = [] \<or> trim (lastName s) = [] \<or> trim (email s) = [] \<or>
           password s = [] then 0 else 1) \<and>
   (req \<in> set (calls (snd (handleRegister resp s))) \<longrightarrow>
     meth req = POST \<and>
     url req = ''auth/register/'' \<and>
     field ''username'' (body req)
       = Some (JStr (takeWhile (\<lambda>c. c \<noteq> CHR ''@'') (toLowerCase (trim (email s))))) \<and>
     field ''email'' (body req) = Some (JStr (toLowerCase (trim (email s)))) \<and>
     field ''first_name'' (body req) = Some (JStr (trim (firstName s))) \<and>
     field ''last_name'' (body req) = Some (JStr (trim (lastName s))) \<and>
     field ''password'' (body req) = Some (JStr (password s)))"
  by (auto simp: handleRegister_def apiClient_post_def hd_js_split Let_def split: if_splits)

theorem register_username_witness:
  "length (calls (snd (handleRegister (Fulfilled JNull) sample_register))) = 1 \<and>
   hd (calls (snd (handleRegister (Fulfilled JNull) sample_register)))
     \<in> set (calls (snd (handleRegister (Fulfilled JNull) sample_register))) \<and>
   field ''username'' (body (hd (calls (snd (handleRegister (Fulfilled JNull) sample_register)))))
     = Some (JStr ''ada.l'') \<and>
   field ''email'' (body (hd (calls (snd (handleRegister (Fulfilled JNull) sample_register)))))
     = Some (JStr ''ada.l@x.edu'')"
proof -
  have t: "trim (email sample_register) = ''Ada.L@X.edu''"
    by (simp add: sample_register_def trim_def isWhiteSpace_def)
  have l: "toLowerCase ''Ada.L@X.edu'' = ''ada.l@x.edu''"
    by (simp add: toLowerCase_def toLowerCase_char_def upper_case_units_def lower_case_units_def)
  have v: "\<not> (trim (firstName sample_register) = [] \<or> trim (lastName sample_register) = [] \<or>
              trim (email sample_register) = [] \<or> password sample_register = [])"
    by (simp add: sample_register_def trim_def isWhiteSpace_def)
  have h: "hd (calls (snd (handleRegister (Fulfilled JNull) sample_register)))
     \<in> set (calls (snd (handleRegister (Fulfilled JNull) sample_register)))"
    by (simp add: handleRegister_def sample_register_def trim_def isWhiteSpace_def Let_def)
  from register_username_is_local_part
         [where resp = "Fulfilled JNull" and s = sample_register
            and req = "hd (calls (snd (handleRegister (Fulfilled JNull) sample_register)))"]
       h v t l
  show ?thesis by simp
qed

text \<open>
  C10. A submission of the home screen with a bin identifier that is not empty once trimmed
  posts exactly one report (any other submission posts none), and every report posted goes
  to \<open>reports/create/\<close> with the latitude \<open>36.8969\<close>, the longitude \<open>30.6553\<close> and the
  verification method \<open>QR\<close>, whatever the state and the clock; the requests issued depend
  on nothing but the bin identifier, the waste category, the photo payload and the clock.
\<close>

theorem home_report_constant_fields:
  "length (calls (snd (HomeScreen_submitReport now resp s)))
     = (if trim (binId s) = [] then 0 else 1) \<and>
   (req \<in> set (calls (snd (HomeScreen_submitReport now resp s))) \<longrightarrow>
      meth req = POST \<and>
      url req = ''reports/create/'' \<and>
      field ''latitude'' (body req) = Some (JStr ''36.8969'') \<and>
      field ''longitude'' (body req) = Some (JStr ''30.6553'') \<and>
      field ''verification_method'' (body req) = Some (JStr ''QR'') \<and>
      field ''bin'' (body req) = Some (JStr (trim (binId s))) \<and>
      field ''waste_category'' (body req) = Some (JStr (wasteCategory s)) \<and>
      field ''client_timestamp'' (body req) = Some (JStr now) \<and>
      field ''photo_base64'' (body req)
        = Some (case imageBase64 s of None \<Rightarrow> JNull | Some b \<Rightarrow> JStr b)) \<and>
   (binId s' = binId s \<and> wasteCategory s' = wasteCategory s \<and> imageBase64 s' = imageBase64 s \<longrightarrow>
      calls (snd (HomeScreen_submitReport now resp' s'))
        = calls (snd (HomeScreen_submitReport now resp s)))"
  by (cases resp; cases resp')
     (auto simp: HomeScreen_submitReport_def apiClient_post_def Let_def)

theorem home_report_constant_fields_witness:
  "length (calls (snd (HomeScreen_submitReport ''2024-05-01T10:00:00.000Z'' (Fulfilled JNull)
      sample_home))) = 1 \<and>
   hd (calls (snd (HomeScreen_submitReport ''2024-05-01T10:00:00.000Z'' (Fulfilled JNull)
      sample_home)))
     \<in> set (calls (snd (HomeScreen_submitReport ''2024-05-01T10:00:00.000Z'' (Fulfilled JNull)
      sample_home))) \<and>
   field ''latitude'' (body (hd (calls (snd (HomeScreen_submitReport ''2024-05-01T10:00:00.000Z''
      (Fulfilled JNull) sample_home))))) = Some (JStr ''36.8969'') \<and>
   field ''longitude'' (body (hd (calls (snd (HomeScreen_submitReport ''2024-05-01T10:00:00.000Z''
      (Fulfilled JNull) sample_home))))) = Some (JStr ''30.6553'') \<and>
   field ''verification_method'' (body (hd (calls (snd (HomeScreen_submitReport
      ''2024-05-01T10:00:00.000Z'' (Fulfilled JNull) sample_home))))) = Some (JStr ''QR'') \<and>
   calls (snd (HomeScreen_submitReport ''2024-05-01T10:00:00.000Z'' (Rejected None)
      (sample_home\<lparr>loading := True, imageUri := None\<rparr>)))
     = calls (snd (HomeScreen_submitReport ''2024-05-01T10:00:00.000Z'' (Fulfilled JNull)
      sample_home))"
proof -
  have v: "trim (binId sample_home) \<noteq> []"
    by (simp add: sample_home_def trim_def isWhiteSpace_def)
  have h: "hd (calls (snd (HomeScreen_submitReport ''2024-05-01T10:00:00.000Z'' (Fulfilled JNull)
      sample_home)))
     \<in> set (calls (snd (HomeScreen_submitReport ''2024-05-01T10:00:00.000Z'' (Fulfilled JNull)
      sample_home)))"
    by (simp add: HomeScreen_submitReport_def sample_home_def trim_def isWhiteSpace_def Let_def)
  from home_report_constant_fields
         [where req = "hd (calls (snd (HomeScreen_submitReport ''2024-05-01T10:00:00.000Z''
                (Fulfilled JNull) sample_home)))"
            and now = "''2024-05-01T10:00:00.000Z''" and resp = "Fulfilled JNull"
            and s = sample_home
            and s' = "sample_home\<lparr>loading := True, imageUri := None\<rparr>"
            and resp' = "Rejected None"]
       h v
  show ?thesis by simp
qed

end
